theory Spec2Isabelle
  imports Complex_Main "HOL-Library.AList" "HOL-Library.Multiset"
begin

section \<open>JavaScript values\<close>

text \<open>
  The values the server stores without looking inside them (run options, progress
  metadata, result rows) are JavaScript values. An object is its list of properties in
  insertion order. Numbers are modelled as exact reals: rounding of IEEE doubles, NaN and
  the infinities are outside the model.
\<close>

datatype jsval =
    JUndefined
  | JNull
  | JBool bool
  | JNum real
  | JStr string
  | JArr "jsval list"
  | JObj "(string \<times> jsval) list"

section \<open>server.js: the in-memory job store\<close>

text \<open>
  \<^verbatim>\<open>const jobs = new Map()\<close> keeps its entries in insertion order, so the store is an
  association list with distinct keys, handled with \<open>AList.update\<close> (\<^verbatim>\<open>jobs.set\<close>),
  \<open>AList.delete\<close> (\<^verbatim>\<open>jobs.delete\<close>) and \<open>map_of\<close> (\<^verbatim>\<open>jobs.get\<close>).
  A subscriber is an HTTP response object; it is named by a number. \<^verbatim>\<open>res.end()\<close> is the
  one effect the store has on a subscriber, so the state carries the list of responses that
  have been ended, in the order of the calls. Timestamps are \<^verbatim>\<open>Date.now()\<close> milliseconds.
  \<^verbatim>\<open>TTL_MS\<close> and \<^verbatim>\<open>MAX_CACHE_ITEMS\<close> are read from the environment once; they are
  parameters here, an integer number of milliseconds and a natural number of jobs.
\<close>

datatype job_status = Running | Done | Error

record job =
  createdAt :: int
  updatedAt :: int
  status :: job_status
  opts :: jsval
  meta :: jsval
  rows :: "jsval list"
  error :: "string option"
  clients :: "nat list"

record store =
  jobs :: "(string \<times> job) list"
  ended :: "nat list"

text \<open>The body shared by both removal loops: end every client of the job, then delete it.\<close>

definition end_and_delete :: "string \<Rightarrow> job \<Rightarrow> store \<Rightarrow> store" where
  "end_and_delete jobId j st =
     st\<lparr>ended := ended st @ clients j, jobs := AList.delete jobId (jobs st)\<rparr>"

text \<open>The cleanup timer's callback (\<^verbatim>\<open>setInterval\<close>, lines 46-67), run at time \<open>now\<close>.\<close>

fun sweep_loop :: "int \<Rightarrow> int \<Rightarrow> (string \<times> job) list \<Rightarrow> store \<Rightarrow> store" where
  "sweep_loop TTL_MS now [] st = st"
| "sweep_loop TTL_MS now ((jobId, j) # es) st =
     (if now - createdAt j > TTL_MS
      then sweep_loop TTL_MS now es (end_and_delete jobId j st)
      else sweep_loop TTL_MS now es st)"

definition ttl_sweep :: "int \<Rightarrow> int \<Rightarrow> store \<Rightarrow> store" where
  "ttl_sweep TTL_MS now st = sweep_loop TTL_MS now (jobs st) st"

text \<open>
  \<^verbatim>\<open>evictIfNeeded\<close>: the entries are sorted by \<^verbatim>\<open>createdAt\<close> (the sort of an array is
  stable, as \<open>sort_key\<close> is) and the first \<^verbatim>\<open>removeN\<close> are removed.
\<close>

fun evict_loop :: "(string \<times> job) list \<Rightarrow> store \<Rightarrow> store" where
  "evict_loop [] st = st"
| "evict_loop ((jobId, j) # es) st = evict_loop es (end_and_delete jobId j st)"

definition evictIfNeeded :: "nat \<Rightarrow> store \<Rightarrow> store" where
  "evictIfNeeded MAX_CACHE_ITEMS st =
     (if length (jobs st) \<le> MAX_CACHE_ITEMS then st
      else
        let entries = sort_key (\<lambda>e. createdAt (snd e)) (jobs st);
            removeN = max 1 (length (jobs st) - MAX_CACHE_ITEMS)
        in evict_loop (take removeN entries) st)"

text \<open>The metadata a new job starts with.\<close>

definition initial_meta :: jsval where
  "initial_meta = JObj
     [(''pagesVisited'', JNum 0), (''collected_links'', JNum 0), (''sampled_links'', JNum 0),
      (''total_parsed'', JNum 0), (''errors'', JArr [])]"

text \<open>
  \<^verbatim>\<open>createJob\<close>: \<^verbatim>\<open>uuidv4()\<close> and \<^verbatim>\<open>Date.now()\<close> are inputs. It evicts first and
  inserts afterwards.
\<close>

definition createJob :: "nat \<Rightarrow> string \<Rightarrow> int \<Rightarrow> jsval \<Rightarrow> store \<Rightarrow> string \<times> store" where
  "createJob MAX_CACHE_ITEMS jobId now os st =
     (let st1 = evictIfNeeded MAX_CACHE_ITEMS st;
          j = \<lparr>createdAt = now, updatedAt = now, status = Running, opts = os,
               meta = initial_meta, rows = [], error = None, clients = []\<rparr>
      in (jobId, st1\<lparr>jobs := AList.update jobId j (jobs st1)\<rparr>))"

text \<open>\<^verbatim>\<open>getJob\<close>: an expired job is deleted on lookup and reported as absent.\<close>

definition getJob :: "int \<Rightarrow> int \<Rightarrow> string \<Rightarrow> store \<Rightarrow> job option \<times> store" where
  "getJob TTL_MS now jobId st =
     (case map_of (jobs st) jobId of
        None \<Rightarrow> (None, st)
      | Some j \<Rightarrow>
          if now - createdAt j > TTL_MS
          then (None, st\<lparr>jobs := AList.delete jobId (jobs st)\<rparr>)
          else (Some j, st))"

text \<open>\<^verbatim>\<open>GET /api/job/:id\<close>: a 404 with an error body, or the snapshot as JSON.\<close>

record snapshot =
  snap_jobId :: string
  snap_status :: job_status
  snap_meta :: jsval
  snap_error :: "string option"
  snap_rows :: "jsval list"

datatype response = Status404 string | Json200 snapshot

definition api_job :: "int \<Rightarrow> int \<Rightarrow> string \<Rightarrow> store \<Rightarrow> response \<times> store" where
  "api_job TTL_MS now jobId st =
     (case getJob TTL_MS now jobId st of
        (None, st1) \<Rightarrow> (Status404 ''job not found or expired'', st1)
      | (Some j, st1) \<Rightarrow>
          (Json200 \<lparr>snap_jobId = jobId, snap_status = status j, snap_meta = meta j,
                    snap_error = error j,
                    snap_rows = (if status j = Done then rows j else [])\<rparr>, st1))"

section \<open>scraper.js: the learning engine\<close>

text \<open>
  The state of \<^verbatim>\<open>class AILearningEngine\<close>. The two \<^verbatim>\<open>Map\<close>s are association lists in
  insertion order, the signature \<^verbatim>\<open>Set\<close> is the list of its members in insertion order.
  \<^verbatim>\<open>min\<close> starts at \<^verbatim>\<open>Infinity\<close>, which is \<open>None\<close> here. \<^verbatim>\<open>locationStats\<close> is never
  read or written and is left out. A price is a number or \<^verbatim>\<open>null\<close> (the result of
  \<^verbatim>\<open>parseNumberLike\<close>), so it is a \<open>real option\<close>.
\<close>

record perf =
  attempts :: nat
  successes :: nat
  avgQuality :: real
  avgLinksFound :: real
  totalLinks :: real
  score :: real

record price_stats =
  pmin :: "real option"
  pmax :: real
  psum :: real
  pcount :: nat
  pvalues :: "real list"

record cat_stats =
  cmin :: "real option"
  cmax :: real
  csum :: real
  ccount :: nat

record scroll_sample =
  rounds :: real
  links :: real

record engine =
  sourcePerformance :: "(string \<times> perf) list"
  priceStats :: price_stats
  categoryStats :: "(string \<times> cat_stats) list"
  scrollEffectiveness :: "scroll_sample list"
  duplicateSignatures :: "string list"

text \<open>The constructor.\<close>

definition new_engine :: engine where
  "new_engine =
     \<lparr>sourcePerformance = [],
      priceStats = \<lparr>pmin = None, pmax = 0, psum = 0, pcount = 0, pvalues = []\<rparr>,
      categoryStats = [], scrollEffectiveness = [], duplicateSignatures = []\<rparr>"

text \<open>\<^verbatim>\<open>Math.min(m, price)\<close> where \<open>m\<close> may still be \<^verbatim>\<open>Infinity\<close>.\<close>

definition min_inf :: "real option \<Rightarrow> real \<Rightarrow> real option" where
  "min_inf m p = (case m of None \<Rightarrow> Some p | Some x \<Rightarrow> Some (min x p))"



text \<open>\<^verbatim>\<open>learnPrice\<close>: a price that is \<^verbatim>\<open>null\<close>, zero or negative is ignored.\<close>

definition learnPrice :: "real option \<Rightarrow> string \<Rightarrow> engine \<Rightarrow> engine" where
  "learnPrice price category eng =
     (case price of
        None \<Rightarrow> eng
      | Some p \<Rightarrow>
          if p = 0 \<or> p \<le> 0 then eng
          else
            let ps = priceStats eng;
                ps1 = \<lparr>pmin = min_inf (pmin ps) p, pmax = max (pmax ps) p,
                       psum = psum ps + p, pcount = pcount ps + 1,
                       pvalues = pvalues ps @ [p]\<rparr>;
                cs = (case map_of (categoryStats eng) category of
                        None \<Rightarrow> \<lparr>cmin = None, cmax = 0, csum = 0, ccount = 0\<rparr>
                      | Some c \<Rightarrow> c);
                cs1 = \<lparr>cmin = min_inf (cmin cs) p, cmax = max (cmax cs) p,
                       csum = csum cs + p, ccount = ccount cs + 1\<rparr>
            in eng\<lparr>priceStats := ps1,
                    categoryStats := AList.update category cs1 (categoryStats eng)\<rparr>)"

text \<open>\<^verbatim>\<open>calculateStdDev\<close>: the population standard deviation, 0 below two values.\<close>

definition calculateStdDev :: "real list \<Rightarrow> real \<Rightarrow> real" where
  "calculateStdDev vs mean =
     (if length vs < 2 then 0
      else sqrt (foldl (\<lambda>s v. s + (v - mean)\<^sup>2) 0 vs / real (length vs)))"

datatype anomaly = outlier_high | outlier_low | suspiciously_low | suspiciously_high

text \<open>The z-score of \<^verbatim>\<open>detectPriceAnomaly\<close>; \<^verbatim>\<open>globalStd || 1\<close> replaces a zero deviation by 1.\<close>

definition globalAvg :: "engine \<Rightarrow> real" where
  "globalAvg eng = psum (priceStats eng) / real (pcount (priceStats eng))"

definition zScore :: "engine \<Rightarrow> real \<Rightarrow> real" where
  "zScore eng p =
     (let globalStd = calculateStdDev (pvalues (priceStats eng)) (globalAvg eng)
      in \<bar>(p - globalAvg eng) / (if globalStd = 0 then 1 else globalStd)\<bar>)"

text \<open>
  The category check of \<^verbatim>\<open>detectPriceAnomaly\<close>: two assignments in sequence, the second
  overriding the first.
\<close>

definition catAnomaly :: "engine \<Rightarrow> real \<Rightarrow> string \<Rightarrow> anomaly option" where
  "catAnomaly eng p category =
     (if category \<noteq> [] then
        (case map_of (categoryStats eng) category of
           None \<Rightarrow> None
         | Some cs \<Rightarrow>
             if ccount cs \<ge> 3 then
               let catAvg = csum cs / real (ccount cs);
                   a1 = (if p < catAvg * 0.3 then Some suspiciously_low else None);
                   a2 = (if p > catAvg * 3 then Some suspiciously_high else a1)
               in a2
             else None)
      else None)"

definition detectPriceAnomaly :: "real option \<Rightarrow> string \<Rightarrow> engine \<Rightarrow> anomaly option" where
  "detectPriceAnomaly price category eng =
     (case price of
        None \<Rightarrow> None
      | Some p \<Rightarrow>
          if p = 0 \<or> pcount (priceStats eng) < 5 then None
          else if zScore eng p > 3 then Some outlier_high
          else if p < globalAvg eng * 0.1 then Some outlier_low
          else catAnomaly eng p category)"

text \<open>
  \<^verbatim>\<open>recommendScrollRounds\<close> records the sample first and then looks at the history, the
  new sample included. \<^verbatim>\<open>slice(-3)\<close> is the last three samples.
\<close>

definition recommendScrollRounds :: "real \<Rightarrow> real \<Rightarrow> engine \<Rightarrow> real \<times> engine" where
  "recommendScrollRounds currentRounds lf eng =
     (let eff = scrollEffectiveness eng @ [\<lparr>rounds = currentRounds, links = lf\<rparr>];
          eng1 = eng\<lparr>scrollEffectiveness := eff\<rparr>
      in if length eff < 3 then (currentRounds, eng1)
         else
           let recent = drop (length eff - 3) eff;
               avgLinks = foldl (\<lambda>s x. s + links x) 0 recent / real (length recent)
           in if avgLinks < 8 then (min (currentRounds + 5) 35, eng1)
              else if avgLinks > 20 then (max (currentRounds - 3) 15, eng1)
              else (currentRounds, eng1))"

text \<open>
  The mean of the links found over the most recent three samples, as the specification
  words it.
\<close>

definition mean_links_recent3 :: "scroll_sample list \<Rightarrow> real" where
  "mean_links_recent3 eff = sum_list (map links (drop (length eff - 3) eff)) / 3"

text \<open>Jobs and stores used as concrete inputs below.\<close>

definition mk_job :: "int \<Rightarrow> job_status \<Rightarrow> jsval list \<Rightarrow> nat list \<Rightarrow> job" where
  "mk_job t s rs cs =
     \<lparr>createdAt = t, updatedAt = t, status = s, opts = JObj [], meta = initial_meta,
      rows = rs, error = None, clients = cs\<rparr>"

definition store2 :: store where
  "store2 = \<lparr>jobs = [(''a'', mk_job 1 Running [] [7]), (''b'', mk_job 2 Running [] [])],
             ended = []\<rparr>"

definition store3 :: store where
  "store3 = \<lparr>jobs = [(''a'', mk_job 0 Running [] [7]),
                     (''d'', mk_job 1000 Done [JObj [(''listing_id'', JStr ''1234'')]] []),
                     (''r'', mk_job 1200 Running [JObj [(''listing_id'', JStr ''99'')]] [])],
             ended = []\<rparr>"






definition feed :: "real \<Rightarrow> real \<Rightarrow> engine \<Rightarrow> engine" where
  "feed r l eng = snd (recommendScrollRounds r l eng)"

section \<open>scraper.js: listings, signatures and scores\<close>

text \<open>
  Three functions of the JavaScript runtime are used on strings and numbers:
  \<^verbatim>\<open>String.prototype.toLowerCase\<close>, the character class \<^verbatim>\<open>\s\<close> of regular expressions,
  and the conversion of a number to a string (inside \<^verbatim>\<open>Array.prototype.join\<close>). They
  belong to the language, not to the program, and depend on Unicode tables and on the
  shortest-digits printing of doubles; the model takes them as a parameter, so every result
  below holds for whatever these functions are. A string is a list of characters, one
  per UTF-16 code unit as far as \<^verbatim>\<open>.length\<close> is concerned.
\<close>

record js_runtime =
  toLowerCase :: "string \<Rightarrow> string"
  isSpace :: "char \<Rightarrow> bool"
  numToString :: "real \<Rightarrow> string"

text \<open>
  A row as \<^verbatim>\<open>normalizeRow\<close> builds it, with the fields that the signature and the scores
  read or write, each at the type \<^verbatim>\<open>normalizeRow\<close> gives it: \<^verbatim>\<open>cleanText\<close> results are
  strings, \<^verbatim>\<open>parseNumberLike\<close> results and the extracted room and area counts are numbers
  or \<^verbatim>\<open>null\<close>, the contact fields are strings or \<^verbatim>\<open>null\<close>. The four score fields that the
  worker fills are \<^verbatim>\<open>null\<close> when the row arrives, and \<^verbatim>\<open>value_score\<close> is 0.
\<close>

record listing =
  listing_id :: "string option"
  listing_url :: string
  category :: string
  deal_type :: string
  listing_title :: string
  price_value :: "real option"
  price_psm :: "real option"
  old_price_text :: "string option"
  usable_area_sqm :: "real option"
  bedrooms :: "real option"
  bathrooms :: "real option"
  location_text :: string
  agent_name :: string
  agent_verified :: bool
  contact_phone :: "string option"
  contact_email :: "string option"
  contact_line_url :: "string option"
  description_text :: string
  images :: string
  quality_score :: "real option"
  price_score :: "real option"
  data_completeness :: "real option"
  anomaly_flags :: "string option"
  location_score :: real
  value_score :: real

text \<open>\<^verbatim>\<open>Math.round\<close> rounds to the nearest integer, halves upwards.\<close>

definition Math_round :: "real \<Rightarrow> real" where
  "Math_round x = of_int \<lfloor>x + 1 / 2\<rfloor>"

text \<open>\<^verbatim>\<open>Array.prototype.join\<close> on strings, and \<^verbatim>\<open>split\<close> on a one-character separator.\<close>

fun js_join :: "string \<Rightarrow> string list \<Rightarrow> string" where
  "js_join sep [] = []"
| "js_join sep [x] = x"
| "js_join sep (x # y # ys) = x @ sep @ js_join sep (y # ys)"

fun js_split :: "char \<Rightarrow> string \<Rightarrow> string list" where
  "js_split c [] = [[]]"
| "js_split c (x # xs) =
     (if x = c then [] # js_split c xs
      else (case js_split c xs of [] \<Rightarrow> [[x]] | p # ps \<Rightarrow> (x # p) # ps))"

subsection \<open>Duplicate signatures\<close>

text \<open>
  An element of the \<^verbatim>\<open>parts\<close> array of \<^verbatim>\<open>generateSignature\<close>: a string, a number or
  \<^verbatim>\<open>null\<close>. \<^verbatim>\<open>filter(Boolean)\<close> keeps the truthy ones: non-empty strings and non-zero
  numbers.
\<close>

datatype sig_part = SStr string | SNum real | SNull

fun part_truthy :: "sig_part \<Rightarrow> bool" where
  "part_truthy (SStr s) = (s \<noteq> [])"
| "part_truthy (SNum x) = (x \<noteq> 0)"
| "part_truthy SNull = False"

fun part_str :: "js_runtime \<Rightarrow> sig_part \<Rightarrow> string" where
  "part_str rt (SStr s) = s"
| "part_str rt (SNum x) = numToString rt x"
| "part_str rt SNull = []"

definition num_part :: "real option \<Rightarrow> sig_part" where
  "num_part v = (case v of None \<Rightarrow> SNull | Some x \<Rightarrow> SNum x)"

definition sig_parts :: "js_runtime \<Rightarrow> listing \<Rightarrow> sig_part list" where
  "sig_parts rt l =
     [SStr (filter (\<lambda>c. \<not> isSpace rt c) (toLowerCase rt (listing_title l))),
      num_part (price_value l),
      num_part (usable_area_sqm l),
      num_part (bedrooms l),
      SStr (location_text l)]"

definition generateSignature :: "js_runtime \<Rightarrow> listing \<Rightarrow> string" where
  "generateSignature rt l =
     js_join ''|'' (map (part_str rt) (filter part_truthy (sig_parts rt l)))"

definition isDuplicate :: "js_runtime \<Rightarrow> listing \<Rightarrow> engine \<Rightarrow> bool \<times> engine" where
  "isDuplicate rt l eng =
     (let sig = generateSignature rt l
      in if sig \<in> set (duplicateSignatures eng) then (True, eng)
         else (False, eng\<lparr>duplicateSignatures := duplicateSignatures eng @ [sig]\<rparr>))"

subsection \<open>\<^verbatim>\<open>class QualityScorer\<close>\<close>

text \<open>
  The test of \<^verbatim>\<open>scoreDataCompleteness\<close> on one field: \<^verbatim>\<open>null\<close> and the empty string do
  not count, nor does a string of fewer than 2 characters; any number counts.
\<close>

definition filled_str :: "string \<Rightarrow> bool" where
  "filled_str s = (s \<noteq> [] \<and> \<not> length s < 2)"

definition filled_ostr :: "string option \<Rightarrow> bool" where
  "filled_ostr v = (case v of None \<Rightarrow> False | Some s \<Rightarrow> filled_str s)"

definition filled_num :: "real option \<Rightarrow> bool" where
  "filled_num v = (v \<noteq> None)"

definition scoreDataCompleteness :: "listing \<Rightarrow> real" where
  "scoreDataCompleteness l =
     real (length (filter (\<lambda>b. b)
       [filled_str (listing_title l), filled_str (category l), filled_str (deal_type l),
        filled_num (price_value l), filled_str (location_text l), filled_num (bedrooms l),
        filled_num (bathrooms l), filled_num (usable_area_sqm l),
        filled_ostr (contact_phone l), filled_str (agent_name l), filled_str (images l),
        filled_str (description_text l)])) / 12"

definition is_digit :: "char \<Rightarrow> bool" where
  "is_digit c = (c \<in> set ''0123456789'')"

text \<open>\<^verbatim>\<open>/^0\d{8,9}$/.test(phone.replace(/\s|-/g, ''))\<close>\<close>

definition phone_ok :: "js_runtime \<Rightarrow> string \<Rightarrow> bool" where
  "phone_ok rt s =
     (let t = filter (\<lambda>c. \<not> (isSpace rt c \<or> c = CHR ''-'')) s
      in (case t of
            [] \<Rightarrow> False
          | c # ds \<Rightarrow> c = CHR ''0'' \<and> (length ds = 8 \<or> length ds = 9) \<and> list_all is_digit ds))"

text \<open>
  Truthiness of a value that is a string or \<^verbatim>\<open>null\<close>, and of one that is a number or
  \<^verbatim>\<open>null\<close>.
\<close>

definition truthy_ostr :: "string option \<Rightarrow> bool" where
  "truthy_ostr v = (case v of None \<Rightarrow> False | Some s \<Rightarrow> s \<noteq> [])"

definition truthy_onum :: "real option \<Rightarrow> bool" where
  "truthy_onum v = (case v of None \<Rightarrow> False | Some x \<Rightarrow> x \<noteq> 0)"

definition scoreContactQuality :: "js_runtime \<Rightarrow> listing \<Rightarrow> real" where
  "scoreContactQuality rt l =
     (let s0 = 0;
          s1 = (if (case contact_phone l of None \<Rightarrow> False
                    | Some s \<Rightarrow> s \<noteq> [] \<and> phone_ok rt s)
                then s0 + 0.4 else s0);
          s2 = (if (case contact_email l of None \<Rightarrow> False
                    | Some s \<Rightarrow> s \<noteq> [] \<and> CHR ''@'' \<in> set s)
                then s1 + 0.2 else s1);
          s3 = (if truthy_ostr (contact_line_url l) then s2 + 0.2 else s2);
          s4 = (if agent_name l \<noteq> [] \<and> length (agent_name l) > 2 then s3 + 0.1 else s3);
          s5 = (if agent_verified l then s4 + 0.1 else s4)
      in s5)"

definition scoreImageQuality :: "listing \<Rightarrow> real" where
  "scoreImageQuality l =
     (if images l = [] then 0
      else
        let imgCount = length (filter (\<lambda>s. s \<noteq> []) (js_split CHR ''|'' (images l)))
        in if imgCount = 0 then 0
           else if imgCount \<ge> 10 then 1
           else real imgCount / 10)"

definition scorePriceReliability :: "listing \<Rightarrow> real" where
  "scorePriceReliability l =
     (case price_value l of
        None \<Rightarrow> 0
      | Some pv \<Rightarrow>
          if pv = 0 \<or> pv \<le> 0 then 0
          else
            let s0 = 0.5;
                s1 = (if (case price_psm l of None \<Rightarrow> False
                          | Some x \<Rightarrow> x \<noteq> 0 \<and> x > 0)
                      then s0 + 0.2 else s0);
                s2 = (if pv > 100000 \<and> pv < 1000000000 then s1 + 0.2 else s1);
                s3 = (if truthy_ostr (old_price_text l) then s2 + 0.1 else s2)
            in min s3 1)"

definition calculateQualityScore :: "js_runtime \<Rightarrow> listing \<Rightarrow> real" where
  "calculateQualityScore rt l =
     (let completeness = scoreDataCompleteness l;
          contactQuality = scoreContactQuality rt l;
          imageQuality = scoreImageQuality l;
          priceQuality = scorePriceReliability l;
          sc = completeness * 0.35 + contactQuality * 0.25 + imageQuality * 0.20
                 + priceQuality * 0.20
      in Math_round (sc * 100))"

fun anomaly_name :: "anomaly \<Rightarrow> string" where
  "anomaly_name outlier_high = ''outlier_high''"
| "anomaly_name outlier_low = ''outlier_low''"
| "anomaly_name suspiciously_low = ''suspiciously_low''"
| "anomaly_name suspiciously_high = ''suspiciously_high''"

definition generateAnomalyFlags :: "listing \<Rightarrow> engine \<Rightarrow> string option" where
  "generateAnomalyFlags l aiEngine =
     (let f1 = (case detectPriceAnomaly (price_value l) (category l) aiEngine of
                  None \<Rightarrow> []
                | Some a \<Rightarrow> [''price_'' @ anomaly_name a]);
          f2 = (if \<not> truthy_ostr (contact_phone l) \<and> \<not> truthy_ostr (contact_email l)
                then f1 @ [''no_contact''] else f1);
          f3 = (if images l = [] \<or> length (images l) < 10 then f2 @ [''no_images''] else f2);
          f4 = (if \<not> truthy_onum (price_value l) then f3 @ [''no_price''] else f3);
          f5 = (if listing_title l \<noteq> [] \<and> length (listing_title l) < 10
                then f4 @ [''short_title''] else f4);
          f6 = (if description_text l \<noteq> [] \<and> length (description_text l) < 50
                then f5 @ [''short_description''] else f5);
          joined = js_join '','' f6
      in if joined = [] then None else Some joined)"

subsection \<open>The worker of \<^verbatim>\<open>scrapeListings\<close>\<close>

text \<open>
  The state that the workers share: the engine, the \<^verbatim>\<open>rows\<close> array, \<^verbatim>\<open>parsedCount\<close> and
  the counters and error list of \<^verbatim>\<open>meta\<close>. The workers interleave only at an
  \<^verbatim>\<open>await\<close>, and there is none between the duplicate check and \<^verbatim>\<open>rows.push\<close>, so the
  run is the sequence of its links in the order in which the workers finish fetching them.
  For one link, everything up to the duplicate check (\<^verbatim>\<open>workWithRetry\<close>, recycling the
  page) either throws, and the \<^verbatim>\<open>catch\<close> records the message, or delivers the row.
\<close>

record run_state =
  aiEngine :: engine
  run_rows :: "listing list"
  parsedCount :: nat
  duplicates_removed :: nat
  total_parsed :: nat
  errors :: "(string \<times> string) list"

text \<open>
  A score field read in arithmetic: \<^verbatim>\<open>null\<close> converts to 0. The score assignments of the
  worker follow, in the order of the source.
\<close>

definition to_number :: "real option \<Rightarrow> real" where
  "to_number v = (case v of None \<Rightarrow> 0 | Some x \<Rightarrow> x)"

definition score_row :: "js_runtime \<Rightarrow> engine \<Rightarrow> listing \<Rightarrow> listing" where
  "score_row rt e row =
     (let r1 = row\<lparr>quality_score := Some (calculateQualityScore rt row)\<rparr>;
          r2 = r1\<lparr>price_score := Some (scorePriceReliability r1 * 100)\<rparr>;
          r3 = r2\<lparr>data_completeness := Some (Math_round (scoreDataCompleteness r2 * 100))\<rparr>;
          r4 = r3\<lparr>anomaly_flags := generateAnomalyFlags r3 e\<rparr>;
          r5 = r4\<lparr>value_score :=
                    Math_round ((to_number (quality_score r4) / 100) * 40
                                + (to_number (price_score r4) / 100) * 30
                                + (location_score r4 / 100) * 30)\<rparr>
      in r5)"

definition process_row :: "js_runtime \<Rightarrow> run_state \<Rightarrow> listing \<Rightarrow> run_state" where
  "process_row rt st row =
     (case isDuplicate rt row (aiEngine st) of
        (True, e1) \<Rightarrow> st\<lparr>aiEngine := e1, duplicates_removed := duplicates_removed st + 1\<rparr>
      | (False, e1) \<Rightarrow>
          let e2 = learnPrice (price_value row) (category row) e1;
              r = score_row rt e2 row
          in st\<lparr>aiEngine := e2, run_rows := run_rows st @ [r],
                parsedCount := parsedCount st + 1, total_parsed := parsedCount st + 1\<rparr>)"

definition process_link :: "js_runtime \<Rightarrow> run_state \<Rightarrow> string \<times> (string + listing) \<Rightarrow> run_state" where
  "process_link rt st item =
     (case item of
        (link, Inl msg) \<Rightarrow> st\<lparr>errors := errors st @ [(link, msg)]\<rparr>
      | (link, Inr row) \<Rightarrow> process_row rt st row)"

definition run_workers :: "js_runtime \<Rightarrow> run_state \<Rightarrow> (string \<times> (string + listing)) list \<Rightarrow> run_state" where
  "run_workers rt st items = foldl (process_link rt) st items"

text \<open>The state at the start of a run: a new engine, no rows, all counters 0.\<close>

definition init_run :: run_state where
  "init_run = \<lparr>aiEngine = new_engine, run_rows = [], parsedCount = 0,
               duplicates_removed = 0, total_parsed = 0, errors = []\<rparr>"

text \<open>The rows that a sequence of links delivers.\<close>

fun delivered :: "(string \<times> (string + listing)) list \<Rightarrow> listing list" where
  "delivered [] = []"
| "delivered ((link, Inl msg) # xs) = delivered xs"
| "delivered ((link, Inr row) # xs) = row # delivered xs"

subsection \<open>Notions used to state the results on the worker\<close>

text \<open>
  The elements of a list whose key did not occur before, neither in \<open>seen\<close> nor earlier
  in the list: the first occurrence of every key, in order.
\<close>

fun first_occurrences :: "('a \<Rightarrow> 'k) \<Rightarrow> 'k list \<Rightarrow> 'a list \<Rightarrow> 'a list" where
  "first_occurrences key seen [] = []"
| "first_occurrences key seen (x # xs) =
     (if key x \<in> set seen then first_occurrences key seen xs
      else x # first_occurrences key (seen @ [key x]) xs)"

text \<open>A row without the five fields that the worker assigns.\<close>

definition clear_scores :: "listing \<Rightarrow> listing" where
  "clear_scores r = r\<lparr>quality_score := None, price_score := None, data_completeness := None,
                       anomaly_flags := None, value_score := 0\<rparr>"



text \<open>
  A runtime for the concrete inputs below, adequate for ASCII text and for whole numbers:
  lower-casing of the letters A to Z, the ASCII white space, decimal printing.
\<close>

definition ascii_lower :: "char \<Rightarrow> char" where
  "ascii_lower c =
     (case map_of (zip ''ABCDEFGHIJKLMNOPQRSTUVWXYZ'' ''abcdefghijklmnopqrstuvwxyz'') c of
        None \<Rightarrow> c | Some d \<Rightarrow> d)"

definition ascii_space :: "char \<Rightarrow> bool" where
  "ascii_space c = (c \<in> set [CHR '' '', CHR 0x09, CHR 0x0A, CHR 0x0B, CHR 0x0C, CHR 0x0D])"

fun dec :: "nat \<Rightarrow> string" where
  "dec n = (if n < 10 then [''0123456789'' ! n]
            else dec (n div 10) @ [''0123456789'' ! (n mod 10)])"

definition ascii_rt :: js_runtime where
  "ascii_rt = \<lparr>toLowerCase = map ascii_lower, isSpace = ascii_space,
               numToString = (\<lambda>x. (if x < 0 then ''-'' else []) @ dec (nat \<lfloor>\<bar>x\<bar>\<rfloor>))\<rparr>"

text \<open>
  Two rows as concrete inputs: one for which nothing was extracted, and one condominium
  listing.
\<close>

definition blank_listing :: "string \<Rightarrow> string \<Rightarrow> listing" where
  "blank_listing i u =
     \<lparr>listing_id = Some i, listing_url = u, category = [], deal_type = [],
      listing_title = [], price_value = None, price_psm = None, old_price_text = None,
      usable_area_sqm = None, bedrooms = None, bathrooms = None, location_text = [],
      agent_name = [], agent_verified = False, contact_phone = None, contact_email = None,
      contact_line_url = None, description_text = [], images = [], quality_score = None,
      price_score = None, data_completeness = None, anomaly_flags = None,
      location_score = 40, value_score = 0\<rparr>"

definition condo_listing :: "string \<Rightarrow> string \<Rightarrow> listing" where
  "condo_listing i u =
     (blank_listing i u)\<lparr>category := ''condo'', deal_type := ''sale'',
        listing_title := ''Condo Near BTS'', price_value := Some 2000000,
        price_psm := Some 50000, usable_area_sqm := Some 40, bedrooms := Some 1,
        bathrooms := Some 1, location_text := ''Bangkok'', agent_name := ''Somchai'',
        contact_phone := Some ''081-234-5678'',
        images := ''https://x/a.jpg | https://x/b.jpg'', location_score := 55\<rparr>"


definition items4 :: "(string \<times> (string + listing)) list" where
  "items4 =
     [(''https://a/1001/'', Inr (condo_listing ''1001'' ''https://a/1001/'')),
      (''https://a/3003/'', Inl ''timeout''),
      (''https://a/2002/'', Inr (condo_listing ''2002'' ''https://a/2002/'')),
      (''https://a/4004/'', Inr (condo_listing ''4004'' ''https://a/4004/''))]"

section \<open>scraper.js: search sources and their selection\<close>












section \<open>scraper.js: the output schema\<close>







section \<open>Results on the job store\<close>

text \<open>
  General facts about the three removal paths. A creation in a store that is not above its
  capacity evicts nothing and adds one job. \<^verbatim>\<open>getJob\<close> never ends a subscriber. The
  periodic sweep and the eviction loop end every subscriber of every job they remove.
\<close>

lemma createJob_within_capacity:
  assumes "length (jobs st) \<le> MAX_CACHE_ITEMS" and "jobId \<notin> fst ` set (jobs st)"
  shows "length (jobs (snd (createJob MAX_CACHE_ITEMS jobId now os st))) = length (jobs st) + 1"
    and "ended (snd (createJob MAX_CACHE_ITEMS jobId now os st)) = ended st"
    and "set (jobs st) \<subseteq> set (jobs (snd (createJob MAX_CACHE_ITEMS jobId now os st)))"
proof -
  have u: "AList.update jobId v al = al @ [(jobId, v)]" if "jobId \<notin> fst ` set al"
    for v :: job and al
    using that by (induction al) auto
  show "length (jobs (snd (createJob MAX_CACHE_ITEMS jobId now os st))) = length (jobs st) + 1"
    and "ended (snd (createJob MAX_CACHE_ITEMS jobId now os st)) = ended st"
    and "set (jobs st) \<subseteq> set (jobs (snd (createJob MAX_CACHE_ITEMS jobId now os st)))"
    using assms by (auto simp: createJob_def evictIfNeeded_def Let_def u)
qed

lemma getJob_ended: "ended (snd (getJob TTL_MS now jobId st)) = ended st"
  by (simp add: getJob_def split: option.splits)

lemma sweep_loop_ended_mono: "set (ended st) \<subseteq> set (ended (sweep_loop TTL_MS now es st))"
proof (induction es arbitrary: st)
  case Nil
  then show ?case by simp
next
  case (Cons e es)
  obtain jobId j where e: "e = (jobId, j)" by (cases e)
  from Cons [of st] Cons [of "end_and_delete jobId j st"] show ?case
    by (auto simp: e end_and_delete_def)
qed

lemma sweep_loop_ends_clients:
  "(jobId, j) \<in> set es \<Longrightarrow> now - createdAt j > TTL_MS
     \<Longrightarrow> set (clients j) \<subseteq> set (ended (sweep_loop TTL_MS now es st))"
proof (induction es arbitrary: st)
  case Nil
  then show ?case by simp
next
  case (Cons e es)
  obtain jobId' j' where e: "e = (jobId', j')" by (cases e)
  show ?case
  proof (cases "(jobId, j) = e")
    case True
    with Cons.prems e
      sweep_loop_ended_mono [of "end_and_delete jobId j st" TTL_MS now es]
    show ?thesis by (auto simp: end_and_delete_def)
  next
    case False
    with Cons.prems have "(jobId, j) \<in> set es" by auto
    from Cons.IH [OF this Cons.prems(2)] show ?thesis by (simp add: e)
  qed
qed

lemma ttl_sweep_ends_clients:
  "(jobId, j) \<in> set (jobs st) \<Longrightarrow> now - createdAt j > TTL_MS
     \<Longrightarrow> set (clients j) \<subseteq> set (ended (ttl_sweep TTL_MS now st))"
  unfolding ttl_sweep_def by (rule sweep_loop_ends_clients)

lemma evict_loop_ended_mono: "set (ended st) \<subseteq> set (ended (evict_loop es st))"
proof (induction es arbitrary: st)
  case Nil
  then show ?case by simp
next
  case (Cons e es)
  obtain jobId j where e: "e = (jobId, j)" by (cases e)
  from Cons [of "end_and_delete jobId j st"] show ?case
    by (auto simp: e end_and_delete_def)
qed

lemma evict_loop_ends_clients:
  "(jobId, j) \<in> set es \<Longrightarrow> set (clients j) \<subseteq> set (ended (evict_loop es st))"
proof (induction es arbitrary: st)
  case Nil
  then show ?case by simp
next
  case (Cons e es)
  obtain jobId' j' where e: "e = (jobId', j')" by (cases e)
  show ?case
  proof (cases "(jobId, j) = e")
    case True
    with e evict_loop_ended_mono [of "end_and_delete jobId j st" es]
    show ?thesis by (auto simp: end_and_delete_def)
  next
    case False
    with Cons.prems have "(jobId, j) \<in> set es" by auto
    from Cons.IH [OF this] show ?thesis by (simp add: e)
  qed
qed


text \<open>
  C1. With capacity 2 and two jobs stored, the older one (\<open>a\<close>) having subscriber 7,
  creating a third job evicts nothing: \<^verbatim>\<open>evictIfNeeded\<close> runs before the insertion and
  returns at once because the size is not above the capacity. The store then holds three
  jobs, job \<open>a\<close> is still stored and no channel has been ended.
\<close>

theorem createJob_third_job_exceeds_capacity:
  "snd (createJob 2 ''c'' 3 (JObj []) store2) =
     \<lparr>jobs = [(''a'', mk_job 1 Running [] [7]), (''b'', mk_job 2 Running [] []),
              (''c'', mk_job 3 Running [] [])],
      ended = []\<rparr>
   \<and> length (jobs (snd (createJob 2 ''c'' 3 (JObj []) store2))) = 3"
  by (simp add: createJob_def evictIfNeeded_def store2_def mk_job_def)

text \<open>
  C2. A job created at time 0 with subscriber 7, looked up at time 1500 under a TTL of
  1000 ms, is deleted by \<^verbatim>\<open>getJob\<close> without its subscriber being ended, whereas the
  periodic sweep run at the same moment ends subscriber 7 before deleting the job.
\<close>

theorem getJob_expiry_leaves_subscriber_open:
  "getJob 1000 1500 ''a'' \<lparr>jobs = [(''a'', mk_job 0 Running [] [7])], ended = []\<rparr>
     = (None, \<lparr>jobs = [], ended = []\<rparr>)
   \<and> ttl_sweep 1000 1500 \<lparr>jobs = [(''a'', mk_job 0 Running [] [7])], ended = []\<rparr>
     = \<lparr>jobs = [], ended = [7]\<rparr>"
  by (simp add: getJob_def ttl_sweep_def end_and_delete_def mk_job_def)

text \<open>
  C9. The snapshot query answers 404 for an unknown job id and for a job older than the
  TTL; for any other job it answers with the job's status, metadata and error, and with
  its rows when the status is done and the empty list otherwise.
\<close>

theorem api_job_snapshot:
  "(map_of (jobs st) jobId = None \<longrightarrow>
      fst (api_job TTL_MS now jobId st) = Status404 ''job not found or expired'')
   \<and> (\<forall>j. map_of (jobs st) jobId = Some j \<and> now - createdAt j > TTL_MS \<longrightarrow>
      fst (api_job TTL_MS now jobId st) = Status404 ''job not found or expired'')
   \<and> (\<forall>j. map_of (jobs st) jobId = Some j \<and> \<not> now - createdAt j > TTL_MS \<longrightarrow>
      fst (api_job TTL_MS now jobId st) =
         Json200 \<lparr>snap_jobId = jobId, snap_status = status j, snap_meta = meta j,
                  snap_error = error j,
                  snap_rows = (if status j = Done then rows j else [])\<rparr>)"
  by (simp add: api_job_def getJob_def)

text \<open>
  The three cases at concrete inputs: a job created at time 0 and queried at 1500 under a
  TTL of 1000 ms is not found; a finished job queried in time shows its rows, a running one
  shows none; an unknown id is not found.
\<close>

theorem api_job_snapshot_witness:
  "fst (api_job 1000 1500 ''a'' store3) = Status404 ''job not found or expired''
   \<and> fst (api_job 1000 1500 ''zz'' store3) = Status404 ''job not found or expired''
   \<and> fst (api_job 1000 1500 ''d'' store3) =
       Json200 \<lparr>snap_jobId = ''d'', snap_status = Done, snap_meta = initial_meta,
                snap_error = None, snap_rows = [JObj [(''listing_id'', JStr ''1234'')]]\<rparr>
   \<and> fst (api_job 1000 1500 ''r'' store3) =
       Json200 \<lparr>snap_jobId = ''r'', snap_status = Running, snap_meta = initial_meta,
                snap_error = None, snap_rows = []\<rparr>"
  using api_job_snapshot [of store3 "''a''" 1000 1500]
    api_job_snapshot [of store3 "''zz''" 1000 1500]
    api_job_snapshot [of store3 "''d''" 1000 1500]
    api_job_snapshot [of store3 "''r''" 1000 1500]
  by (simp add: store3_def mk_job_def)

section \<open>Results on the learning engine\<close>









lemma foldl_links: "foldl (\<lambda>s x. s + links x) a xs = a + sum_list (map links xs)"
  by (induction xs arbitrary: a) simp_all

lemma feed_scrollEffectiveness:
  "scrollEffectiveness (feed r l eng) = scrollEffectiveness eng @ [\<lparr>rounds = r, links = l\<rparr>]"
  by (simp add: feed_def recommendScrollRounds_def Let_def)

text \<open>
  C7. \<^verbatim>\<open>recommendScrollRounds\<close> records the sample it is given and returns the current
  round count while fewer than 3 samples exist, the new one included. From 3 samples on,
  with the mean of the links over the most recent 3 samples: below 8 it returns
  \<open>current + 5\<close> capped at 35, above 20 it returns \<open>current - 3\<close> floored at 15, and it
  returns the current count otherwise.
\<close>

theorem recommendScrollRounds_spec:
  "let eff = scrollEffectiveness eng @ [\<lparr>rounds = cur, links = lf\<rparr>];
       r = fst (recommendScrollRounds cur lf eng)
   in (length eff < 3 \<longrightarrow> r = cur)
    \<and> (3 \<le> length eff \<and> mean_links_recent3 eff < 8 \<longrightarrow> r = min (cur + 5) 35)
    \<and> (3 \<le> length eff \<and> mean_links_recent3 eff > 20 \<longrightarrow> r = max (cur - 3) 15)
    \<and> (3 \<le> length eff \<and> 8 \<le> mean_links_recent3 eff \<and> mean_links_recent3 eff \<le> 20
         \<longrightarrow> r = cur)
    \<and> scrollEffectiveness (snd (recommendScrollRounds cur lf eng)) = eff"
  by (auto simp: recommendScrollRounds_def Let_def mean_links_recent3_def foldl_links)

text \<open>
  Feeding the sample \<open>{rounds: 10, links: 5}\<close> three times to a new engine gives 10, 10
  and then \<open>min (10 + 5) 35 = 15\<close>; the other lines exercise the cap at 35, the decrease,
  the floor at 15 and the unchanged middle band.
\<close>

theorem recommendScrollRounds_spec_witness:
  "fst (recommendScrollRounds 10 5 new_engine) = 10
   \<and> fst (recommendScrollRounds 10 5 (feed 10 5 new_engine)) = 10
   \<and> fst (recommendScrollRounds 10 5 (feed 10 5 (feed 10 5 new_engine))) = 15
   \<and> fst (recommendScrollRounds 33 0 (feed 10 5 (feed 10 5 new_engine))) = 35
   \<and> fst (recommendScrollRounds 25 30 (feed 25 30 (feed 25 30 new_engine))) = 22
   \<and> fst (recommendScrollRounds 16 40 (feed 25 30 (feed 25 30 new_engine))) = 15
   \<and> fst (recommendScrollRounds 25 12 (feed 25 30 (feed 10 5 new_engine))) = 25"
  using recommendScrollRounds_spec [of new_engine 10 5]
    recommendScrollRounds_spec [of "feed 10 5 new_engine" 10 5]
    recommendScrollRounds_spec [of "feed 10 5 (feed 10 5 new_engine)" 10 5]
    recommendScrollRounds_spec [of "feed 10 5 (feed 10 5 new_engine)" 33 0]
    recommendScrollRounds_spec [of "feed 25 30 (feed 25 30 new_engine)" 25 30]
    recommendScrollRounds_spec [of "feed 25 30 (feed 25 30 new_engine)" 16 40]
    recommendScrollRounds_spec [of "feed 25 30 (feed 10 5 new_engine)" 25 12]
  by (simp add: feed_scrollEffectiveness Let_def mean_links_recent3_def new_engine_def)


section \<open>Results on signatures, duplicates and scores\<close>

subsection \<open>The worker, step by step\<close>

lemma learnPrice_duplicateSignatures:
  "duplicateSignatures (learnPrice p c e) = duplicateSignatures e"
  by (simp add: learnPrice_def Let_def split: option.splits)

lemma process_row_dup:
  assumes "generateSignature rt row \<in> set (duplicateSignatures (aiEngine st))"
  shows "run_rows (process_row rt st row) = run_rows st"
    and "duplicates_removed (process_row rt st row) = duplicates_removed st + 1"
    and "duplicateSignatures (aiEngine (process_row rt st row))
           = duplicateSignatures (aiEngine st)"
  using assms by (simp_all add: process_row_def isDuplicate_def Let_def)

lemma process_row_new:
  assumes "generateSignature rt row \<notin> set (duplicateSignatures (aiEngine st))"
  shows "\<exists>e. run_rows (process_row rt st row) = run_rows st @ [score_row rt e row]"
    and "duplicates_removed (process_row rt st row) = duplicates_removed st"
    and "duplicateSignatures (aiEngine (process_row rt st row)) =
           duplicateSignatures (aiEngine st) @ [generateSignature rt row]"
  using assms
  by (auto simp add: process_row_def isDuplicate_def Let_def learnPrice_duplicateSignatures)

lemma run_workers_Cons:
  "run_workers rt st (item # items) = run_workers rt (process_link rt st item) items"
  by (simp add: run_workers_def)

subsection \<open>The scoring functions do not read the score fields\<close>

lemma scorePriceReliability_scores [simp]:
  "scorePriceReliability (r\<lparr>quality_score := a\<rparr>) = scorePriceReliability r"
  "scorePriceReliability (r\<lparr>price_score := a\<rparr>) = scorePriceReliability r"
  "scorePriceReliability (r\<lparr>data_completeness := a\<rparr>) = scorePriceReliability r"
  "scorePriceReliability (r\<lparr>anomaly_flags := f\<rparr>) = scorePriceReliability r"
  "scorePriceReliability (r\<lparr>value_score := v\<rparr>) = scorePriceReliability r"
  by (simp_all add: scorePriceReliability_def Let_def cong: option.case_cong if_cong)

lemma scoreDataCompleteness_scores [simp]:
  "scoreDataCompleteness (r\<lparr>quality_score := a\<rparr>) = scoreDataCompleteness r"
  "scoreDataCompleteness (r\<lparr>price_score := a\<rparr>) = scoreDataCompleteness r"
  "scoreDataCompleteness (r\<lparr>data_completeness := a\<rparr>) = scoreDataCompleteness r"
  "scoreDataCompleteness (r\<lparr>anomaly_flags := f\<rparr>) = scoreDataCompleteness r"
  "scoreDataCompleteness (r\<lparr>value_score := v\<rparr>) = scoreDataCompleteness r"
  by (simp_all add: scoreDataCompleteness_def)

lemma scoreContactQuality_scores [simp]:
  "scoreContactQuality rt (r\<lparr>quality_score := a\<rparr>) = scoreContactQuality rt r"
  "scoreContactQuality rt (r\<lparr>price_score := a\<rparr>) = scoreContactQuality rt r"
  "scoreContactQuality rt (r\<lparr>data_completeness := a\<rparr>) = scoreContactQuality rt r"
  "scoreContactQuality rt (r\<lparr>anomaly_flags := f\<rparr>) = scoreContactQuality rt r"
  "scoreContactQuality rt (r\<lparr>value_score := v\<rparr>) = scoreContactQuality rt r"
  by (simp_all add: scoreContactQuality_def Let_def cong: option.case_cong if_cong)

lemma scoreImageQuality_scores [simp]:
  "scoreImageQuality (r\<lparr>quality_score := a\<rparr>) = scoreImageQuality r"
  "scoreImageQuality (r\<lparr>price_score := a\<rparr>) = scoreImageQuality r"
  "scoreImageQuality (r\<lparr>data_completeness := a\<rparr>) = scoreImageQuality r"
  "scoreImageQuality (r\<lparr>anomaly_flags := f\<rparr>) = scoreImageQuality r"
  "scoreImageQuality (r\<lparr>value_score := v\<rparr>) = scoreImageQuality r"
  by (simp_all add: scoreImageQuality_def Let_def cong: if_cong)

lemma calculateQualityScore_scores [simp]:
  "calculateQualityScore rt (r\<lparr>quality_score := a\<rparr>) = calculateQualityScore rt r"
  "calculateQualityScore rt (r\<lparr>price_score := a\<rparr>) = calculateQualityScore rt r"
  "calculateQualityScore rt (r\<lparr>data_completeness := a\<rparr>) = calculateQualityScore rt r"
  "calculateQualityScore rt (r\<lparr>anomaly_flags := f\<rparr>) = calculateQualityScore rt r"
  "calculateQualityScore rt (r\<lparr>value_score := v\<rparr>) = calculateQualityScore rt r"
  by (simp_all add: calculateQualityScore_def)

lemma generateAnomalyFlags_scores [simp]:
  "generateAnomalyFlags (r\<lparr>quality_score := a\<rparr>) e = generateAnomalyFlags r e"
  "generateAnomalyFlags (r\<lparr>price_score := a\<rparr>) e = generateAnomalyFlags r e"
  "generateAnomalyFlags (r\<lparr>data_completeness := a\<rparr>) e = generateAnomalyFlags r e"
  by (simp_all add: generateAnomalyFlags_def Let_def cong: option.case_cong if_cong)


lemma generateSignature_score_row:
  "generateSignature rt (score_row rt e r) = generateSignature rt r"
  by (simp add: generateSignature_def sig_parts_def score_row_def Let_def)

lemma clear_scores_score_row: "clear_scores (score_row rt e r) = clear_scores r"
  by (simp add: clear_scores_def score_row_def Let_def)




subsection \<open>The condominium listing, scored\<close>






subsection \<open>Duplicates\<close>

lemma first_occurrences_keys:
  "distinct seen \<Longrightarrow> distinct (seen @ map key (first_occurrences key seen xs))
     \<and> set (seen @ map key (first_occurrences key seen xs)) = set seen \<union> key ` set xs"
proof (induction xs arbitrary: seen)
  case Nil
  then show ?case by simp
next
  case (Cons x xs)
  show ?case
  proof (cases "key x \<in> set seen")
    case True
    with Cons show ?thesis by auto
  next
    case False
    with Cons.prems have d: "distinct (seen @ [key x])" by simp
    from Cons.IH [OF d] False show ?thesis by auto
  qed
qed

lemma run_workers_general:
  "map clear_scores (run_rows (run_workers rt st items)) =
      map clear_scores (run_rows st)
      @ map clear_scores (first_occurrences (generateSignature rt)
          (duplicateSignatures (aiEngine st)) (delivered items))
   \<and> duplicates_removed (run_workers rt st items)
       + length (first_occurrences (generateSignature rt)
          (duplicateSignatures (aiEngine st)) (delivered items))
       = duplicates_removed st + length (delivered items)
   \<and> duplicateSignatures (aiEngine (run_workers rt st items)) =
       duplicateSignatures (aiEngine st)
       @ map (generateSignature rt) (first_occurrences (generateSignature rt)
          (duplicateSignatures (aiEngine st)) (delivered items))
   \<and> map (generateSignature rt) (run_rows (run_workers rt st items)) =
       map (generateSignature rt) (run_rows st)
       @ map (generateSignature rt) (first_occurrences (generateSignature rt)
          (duplicateSignatures (aiEngine st)) (delivered items))"
proof (induction items arbitrary: st)
  case Nil
  then show ?case by (simp add: run_workers_def)
next
  case (Cons item items)
  obtain link out where item: "item = (link, out)" by (cases item)
  show ?case
  proof (cases out)
    case (Inl msg)
    with item Cons.IH [of "process_link rt st item"] show ?thesis
      by (simp add: run_workers_Cons process_link_def)
  next
    case (Inr row)
    show ?thesis
    proof (cases "generateSignature rt row \<in> set (duplicateSignatures (aiEngine st))")
      case True
      with item Inr Cons.IH [of "process_link rt st item"] show ?thesis
        by (simp add: run_workers_Cons process_link_def process_row_dup)
    next
      case False
      from process_row_new(1) [OF False] obtain e where
        e: "run_rows (process_row rt st row) = run_rows st @ [score_row rt e row]" by blast
      with False item Inr Cons.IH [of "process_link rt st item"] show ?thesis
        by (simp add: run_workers_Cons process_link_def process_row_new(2,3)
            clear_scores_score_row generateSignature_score_row)
    qed
  qed
qed

text \<open>
  C5. In a run, the rows that are appended are the first occurrences of the signatures
  among the rows delivered, in order (up to the score fields that the worker assigns). So
  the appended rows have pairwise distinct signatures, every signature delivered has one
  row, the signature set holds exactly their signatures, and every other delivered row
  (every repeat of a signature) adds one to \<^verbatim>\<open>duplicates_removed\<close>.
\<close>

theorem run_keeps_first_occurrence_only:
  "map clear_scores (run_rows (run_workers rt init_run items)) =
       map clear_scores (first_occurrences (generateSignature rt) [] (delivered items))
   \<and> distinct (map (generateSignature rt) (run_rows (run_workers rt init_run items)))
   \<and> set (map (generateSignature rt) (run_rows (run_workers rt init_run items)))
       = set (map (generateSignature rt) (delivered items))
   \<and> duplicateSignatures (aiEngine (run_workers rt init_run items))
       = map (generateSignature rt) (run_rows (run_workers rt init_run items))
   \<and> duplicates_removed (run_workers rt init_run items)
        + length (run_rows (run_workers rt init_run items)) = length (delivered items)"
proof -
  have i: "run_rows init_run = []" "duplicateSignatures (aiEngine init_run) = []"
    "duplicates_removed init_run = 0"
    by (simp_all add: init_run_def new_engine_def)
  note g = run_workers_general [of rt init_run items, unfolded i, simplified]
  have k: "distinct (map (generateSignature rt)
               (first_occurrences (generateSignature rt) [] (delivered items)))"
    "set (map (generateSignature rt)
               (first_occurrences (generateSignature rt) [] (delivered items)))
      = generateSignature rt ` set (delivered items)"
    using first_occurrences_keys [of "[]" "generateSignature rt" "delivered items"]
    by simp_all
  have len: "length (run_rows (run_workers rt init_run items))
      = length (first_occurrences (generateSignature rt) [] (delivered items))"
    using g by (metis length_map)
  show ?thesis using g k len by simp
qed

text \<open>
  A run over four links: the same condominium listing fetched from three URLs and one
  link that fails. One row is appended, the one fetched first, and
  \<^verbatim>\<open>duplicates_removed\<close> is 2.
\<close>

theorem run_keeps_first_occurrence_only_witness:
  "map listing_url (run_rows (run_workers ascii_rt init_run items4)) = [''https://a/1001/'']
   \<and> duplicates_removed (run_workers ascii_rt init_run items4) = 2"
proof -
  define sig0 where "sig0 = generateSignature ascii_rt (condo_listing [] [])"
  have s: "generateSignature ascii_rt (condo_listing i u) = sig0" for i u
    by (simp add: sig0_def generateSignature_def sig_parts_def condo_listing_def
        blank_listing_def)
  have f: "first_occurrences (generateSignature ascii_rt) [] (delivered items4)
      = [condo_listing ''1001'' ''https://a/1001/'']"
    by (simp add: items4_def s)
  have d: "length (delivered items4) = 3"
    by (simp add: items4_def)
  have u: "map listing_url (map clear_scores rs) = map listing_url rs" for rs
    by (simp add: clear_scores_def)
  from run_keeps_first_occurrence_only [of ascii_rt items4] have
    a: "map clear_scores (run_rows (run_workers ascii_rt init_run items4)) =
          map clear_scores [condo_listing ''1001'' ''https://a/1001/'']"
    and b: "duplicates_removed (run_workers ascii_rt init_run items4)
        + length (run_rows (run_workers ascii_rt init_run items4)) = 3"
    unfolding f d by simp_all
  from a have "map listing_url (map clear_scores (run_rows (run_workers ascii_rt init_run items4)))
      = map listing_url (map clear_scores [condo_listing ''1001'' ''https://a/1001/''])"
    by simp
  then have c: "map listing_url (run_rows (run_workers ascii_rt init_run items4))
      = [''https://a/1001/'']"
    unfolding u by (simp add: condo_listing_def blank_listing_def)
  then have "length (run_rows (run_workers ascii_rt init_run items4)) = 1"
    by (metis length_map length_Cons list.size(3) One_nat_def)
  with b c show ?thesis by simp
qed





section \<open>Results on source selection\<close>









section \<open>Results on the output schema\<close>












end
